theory Spec2Isabelle
  imports Complex_Main
begin

section \<open>Data model (types/index.ts)\<close>

text \<open>
  A \<open>Date\<close> is its time value, milliseconds since the epoch. Every Date of the mock store
  comes from \<open>new Date()\<close> or from a literal, so it is always a valid one.
\<close>

type_synonym date = int

datatype task_status = Pending | Running | Completed | Failed

datatype worktree_status = Active | Idle | Errored

datatype risk = Low | Medium | High

text \<open>
  \<open>ClaudeTask\<close>. The fields \<open>id\<close> and \<open>output\<close> are \<open>task_id\<close> and \<open>task_output\<close> here (\<open>id\<close> is HOL's identity
  function, \<open>output\<close> an Isabelle keyword).
  The optional fields \<open>startedAt?\<close> and \<open>completedAt?\<close> are options: \<open>None\<close> is the absent
  property.
\<close>

record ClaudeTask =
  task_id :: string
  description :: string
  status :: task_status
  startedAt :: "date option"
  completedAt :: "date option"
  task_output :: "string list"
  workingDirectory :: string

text \<open>\<open>GitWorktree\<close>, its fields prefixed (it shares \<open>id\<close> and \<open>status\<close> with \<open>ClaudeTask\<close>).\<close>

record GitWorktree =
  wt_id :: string
  wt_name :: string
  wt_branch :: string
  wt_path :: string
  wt_status :: worktree_status
  wt_createdAt :: date
  wt_lastActivity :: date
  wt_claudeTask :: "ClaudeTask option"

text \<open>\<open>lastModified: Record<string, Date>\<close> is an association list in insertion order.\<close>

record FileOverlap =
  filePath :: string
  worktrees :: "string list"
  conflictRisk :: risk
  lastModified :: "(string \<times> date) list"

record risk_tally =
  low :: nat
  medium :: nat
  high :: nat

record OverlapAnalysis =
  totalOverlaps :: nat
  fileOverlaps :: "FileOverlap list"
  riskAssessment :: risk_tally
  recommendations :: "string list"

section \<open>Values crossing the command boundary\<close>

text \<open>
  \<open>invoke<T>\<close> returns whatever the command produced, cast to \<open>T\<close>: the hooks read it as an
  untyped value (\<open>invoke<any>\<close>). \<open>jsval\<close> is such a value. \<open>JDate\<close> is a Date with a known
  time value; \<open>JNewDate v\<close> is the Date that \<open>new Date(v)\<close> builds (parsing is the engine's).
  An object is the list of its own properties in insertion order.
\<close>

datatype jsval =
    JUndefined
  | JNull
  | JBool bool
  | JNum rat
  | JStr string
  | JDate date
  | JNewDate jsval
  | JArr "jsval list"
  | JObj "(string \<times> jsval) list"

text \<open>
  What a \<open>throw\<close> or a rejected promise carries. \<open>Error\<close> and \<open>TypeError\<close> are instances of
  \<open>Error\<close>, with their message; \<open>Thrown\<close> is any other value (Tauri rejects with plain
  strings).
\<close>

datatype js_exn = Error string | TypeError string | Thrown jsval

text \<open>\<open>err instanceof Error ? err.message : fallback\<close>, as every hook writes it.\<close>

fun message_or :: "js_exn \<Rightarrow> string \<Rightarrow> string" where
  "message_or (Error m) fallback = m"
| "message_or (TypeError m) fallback = m"
| "message_or (Thrown v) fallback = fallback"

text \<open>
  The message of the TypeError raised by reading property \<open>p\<close> of \<open>undefined\<close> or \<open>null\<close>
  (the wording is V8's; other engines word it differently).
\<close>

definition cannot_read :: "string \<Rightarrow> string \<Rightarrow> string" where
  "cannot_read what p =
     ''Cannot read properties of '' @ what @ '' (reading '' @ [CHR 0x27] @ p @ [CHR 0x27] @ '')''"

text \<open>
  Property read \<open>v.p\<close>, for the property names the hooks use (none of them is a built-in
  property of a string, number, Date or array): it throws on \<open>undefined\<close> and \<open>null\<close>, finds
  an own property of an object, and is \<open>undefined\<close> otherwise.
\<close>

fun get_prop :: "jsval \<Rightarrow> string \<Rightarrow> js_exn + jsval" where
  "get_prop JUndefined p = Inl (TypeError (cannot_read ''undefined'' p))"
| "get_prop JNull p = Inl (TypeError (cannot_read ''null'' p))"
| "get_prop (JObj kvs) p = Inr (case map_of kvs p of None \<Rightarrow> JUndefined | Some v \<Rightarrow> v)"
| "get_prop v p = Inr JUndefined"

fun truthy :: "jsval \<Rightarrow> bool" where
  "truthy JUndefined = False"
| "truthy JNull = False"
| "truthy (JBool b) = b"
| "truthy (JNum n) = (n \<noteq> 0)"
| "truthy (JStr s) = (s \<noteq> [])"
| "truthy v = True"

text \<open>Decimal rendering of a number in a template literal (\<open>`task-${Date.now()}`\<close>).\<close>

definition digit_char :: "nat \<Rightarrow> char" where
  "digit_char d = ''0123456789'' ! (d mod 10)"

fun digits :: "nat \<Rightarrow> string" where
  "digits n = (if n < 10 then [digit_char n] else digits (n div 10) @ [digit_char (n mod 10)])"

declare digits.simps [simp del]

definition number_string :: "int \<Rightarrow> string" where
  "number_string n = (if n < 0 then ''-'' @ digits (nat (- n)) else digits (nat n))"

section \<open>The mock store (utils/tauri.ts)\<close>

text \<open>
  The module-level state. \<open>mockTasks\<close> is an array of task objects that are mutated in place
  and also captured by timer callbacks, so every object carries its identity (a reference):
  two tasks with equal \<open>id\<close> strings are still two objects, and one object has one
  reference. \<open>timeouts\<close> are the pending \<open>setTimeout\<close> callbacks of \<open>start_claude_task\<close>: the
  delay in milliseconds and the task object the closure captured.
\<close>

type_synonym ref = nat

record mock_state =
  mockWorktrees :: "GitWorktree list"
  mockTasks :: "(ref \<times> ClaudeTask) list"
  timeouts :: "(nat \<times> ref) list"

text \<open>A reference no object of the store has: what allocating \<open>newTask\<close> yields.\<close>

definition new_ref :: "mock_state \<Rightarrow> ref" where
  "new_ref st = Suc (fold max (map fst (mockTasks st) @ map snd (timeouts st)) 0)"

text \<open>Mutation of the object behind a reference, wherever the array holds it.\<close>

definition mutate :: "ref \<Rightarrow> (ClaudeTask \<Rightarrow> ClaudeTask) \<Rightarrow> (ref \<times> ClaudeTask) list \<Rightarrow> (ref \<times> ClaudeTask) list" where
  "mutate r f ts = map (\<lambda>(r', t). if r' = r then (r', f t) else (r', t)) ts"

text \<open>\<open>mockTasks.find(t => t.id === taskId)\<close>: the first task with that id, or \<open>undefined\<close>.\<close>

definition find_task :: "string \<Rightarrow> (ref \<times> ClaudeTask) list \<Rightarrow> (ref \<times> ClaudeTask) option" where
  "find_task taskId ts = find (\<lambda>(r, t). task_id t = taskId) ts"

subsection \<open>case 'start_claude_task'\<close>

definition newTask :: "string \<Rightarrow> string \<Rightarrow> date \<Rightarrow> ClaudeTask" where
  "newTask taskDescription workingDir now =
     \<lparr> task_id = ''task-'' @ number_string now,
       description = taskDescription,
       status = Running,
       startedAt = Some now,
       completedAt = None,
       task_output = [''Task started...'', ''Analyzing codebase...''],
       workingDirectory = workingDir \<rparr>"

text \<open>
  Pushes the new task, schedules its completion after 5000 ms, returns its id.
  \<open>worktreeName\<close> is passed by the hook and never read.
\<close>

definition start_claude_task :: "string \<Rightarrow> string \<Rightarrow> string \<Rightarrow> date \<Rightarrow> mock_state \<Rightarrow> string \<times> mock_state" where
  "start_claude_task worktreeName workingDir taskDescription now st =
     (let r = new_ref st; t = newTask taskDescription workingDir now
      in (task_id t,
          st\<lparr> mockTasks := mockTasks st @ [(r, t)],
              timeouts := timeouts st @ [(5000, r)] \<rparr>))"

text \<open>
  The callback of that \<open>setTimeout\<close>, run by the event loop at time \<open>now\<close>: it mutates the
  captured object whatever its status, and is no longer pending afterwards. A timeout that
  is not pending never runs.
\<close>

definition complete_task :: "date \<Rightarrow> ClaudeTask \<Rightarrow> ClaudeTask" where
  "complete_task now t =
     t\<lparr> status := Completed, completedAt := Some now,
        task_output := task_output t @ [''Task completed successfully!''] \<rparr>"

definition run_timeout :: "ref \<Rightarrow> date \<Rightarrow> mock_state \<Rightarrow> mock_state" where
  "run_timeout r now st =
     (if r \<in> snd ` set (timeouts st)
      then st\<lparr> mockTasks := mutate r (complete_task now) (mockTasks st),
               timeouts := filter (\<lambda>(d, r'). r' \<noteq> r) (timeouts st) \<rparr>
      else st)"

subsection \<open>case 'get_claude_task_status'\<close>

definition get_claude_task_status :: "string \<Rightarrow> mock_state \<Rightarrow> ClaudeTask option" where
  "get_claude_task_status taskId st = map_option snd (find_task taskId (mockTasks st))"

subsection \<open>case 'cancel_claude_task'\<close>

definition cancel_mark :: "date \<Rightarrow> ClaudeTask \<Rightarrow> ClaudeTask" where
  "cancel_mark now t =
     t\<lparr> status := Failed, completedAt := Some now,
        task_output := task_output t @ [''Task cancelled by user''] \<rparr>"

definition cancel_claude_task :: "string \<Rightarrow> date \<Rightarrow> mock_state \<Rightarrow> mock_state" where
  "cancel_claude_task taskId now st =
     (case find_task taskId (mockTasks st) of
        None \<Rightarrow> st
      | Some (r, taskToCancel) \<Rightarrow> st\<lparr> mockTasks := mutate r (cancel_mark now) (mockTasks st) \<rparr>)"

subsection \<open>case 'cleanup_completed_claude_tasks'\<close>

text \<open>The test of the loop body: \<open>completedAt\<close> is a Date, truthy whenever present.\<close>

definition stale :: "date \<Rightarrow> ClaudeTask \<Rightarrow> bool" where
  "stale oneHourAgo task =
     (status task = Completed \<and>
      (case completedAt task of None \<Rightarrow> False | Some c \<Rightarrow> c < oneHourAgo))"

text \<open>\<open>xs.splice(i, 1)\<close>.\<close>

definition splice1 :: "nat \<Rightarrow> 'a list \<Rightarrow> 'a list" where
  "splice1 i xs = take i xs @ drop (Suc i) xs"

text \<open>
  The loop \<open>for (let i = mockTasks.length - 1; i >= 0; i--)\<close>; the counter here is \<open>i + 1\<close>.
  Reading \<open>mockTasks[i]\<close> past the end gives \<open>undefined\<close>, whose \<open>status\<close> cannot be read.
\<close>

fun cleanup_loop :: "date \<Rightarrow> nat \<Rightarrow> (ref \<times> ClaudeTask) list \<Rightarrow> js_exn + (ref \<times> ClaudeTask) list" where
  "cleanup_loop oneHourAgo 0 ts = Inr ts"
| "cleanup_loop oneHourAgo (Suc i) ts =
     (if i < length ts
      then (if stale oneHourAgo (snd (ts ! i))
            then cleanup_loop oneHourAgo i (splice1 i ts)
            else cleanup_loop oneHourAgo i ts)
      else Inl (TypeError (cannot_read ''undefined'' ''status'')))"

definition cleanup_completed_claude_tasks :: "date \<Rightarrow> mock_state \<Rightarrow> js_exn + (nat \<times> mock_state)" where
  "cleanup_completed_claude_tasks now st =
     (let beforeCount = length (mockTasks st);
          oneHourAgo = now - 60 * 60 * 1000
      in case cleanup_loop oneHourAgo (length (mockTasks st)) (mockTasks st) of
           Inl e \<Rightarrow> Inl e
         | Inr ts \<Rightarrow> Inr (beforeCount - length ts, st\<lparr> mockTasks := ts \<rparr>))"

subsection \<open>The worktree cases\<close>

definition create_worktree :: "string \<Rightarrow> string \<Rightarrow> date \<Rightarrow> mock_state \<Rightarrow> GitWorktree \<times> mock_state" where
  "create_worktree name branch now st =
     (let newWorktree =
            \<lparr> wt_id = ''wt-'' @ number_string now,
              wt_name = name,
              wt_branch = branch,
              wt_path = ''/tmp/'' @ name,
              wt_status = Active,
              wt_createdAt = now,
              wt_lastActivity = now,
              wt_claudeTask = None \<rparr>
      in (newWorktree, st\<lparr> mockWorktrees := mockWorktrees st @ [newWorktree] \<rparr>))"

text \<open>\<open>findIndex\<close> and \<open>splice(index, 1)\<close>: the first worktree of that name goes, if any.\<close>

fun remove_first :: "('a \<Rightarrow> bool) \<Rightarrow> 'a list \<Rightarrow> 'a list" where
  "remove_first P [] = []"
| "remove_first P (x # xs) = (if P x then xs else x # remove_first P xs)"

definition delete_worktree :: "string \<Rightarrow> mock_state \<Rightarrow> mock_state" where
  "delete_worktree name st =
     st\<lparr> mockWorktrees := remove_first (\<lambda>wt. wt_name wt = name) (mockWorktrees st) \<rparr>"

definition get_worktree_status :: "string list" where
  "get_worktree_status = [''modified: src/App.tsx'', ''new: src/components/NewComponent.tsx'']"

definition get_modified_files :: "string list" where
  "get_modified_files = [''src/App.tsx'', ''src/components/NewComponent.tsx'', ''types/index.ts'']"

subsection \<open>The mock data\<close>

text \<open>
  The literals \<open>new Date('2024-01-01Thh:mm:00')\<close> have no zone, so they are local times:
  \<open>tz\<close> is the offset of local time from UTC in milliseconds. 1704067200000 is
  2024-01-01T00:00:00Z.
\<close>

definition local_2024_01_01 :: "int \<Rightarrow> int \<Rightarrow> int \<Rightarrow> date" where
  "local_2024_01_01 tz h m = 1704067200000 + (h * 60 + m) * 60000 - tz"

definition initial_worktrees :: "int \<Rightarrow> GitWorktree list" where
  "initial_worktrees tz =
     [ \<lparr> wt_id = ''wt-1'', wt_name = ''frontend-feature'', wt_branch = ''feature/ui-components'',
         wt_path = ''/tmp/frontend-feature'', wt_status = Active,
         wt_createdAt = local_2024_01_01 tz 10 0, wt_lastActivity = local_2024_01_01 tz 12 30,
         wt_claudeTask = None \<rparr>,
       \<lparr> wt_id = ''wt-2'', wt_name = ''backend-api'', wt_branch = ''feature/auth-api'',
         wt_path = ''/tmp/backend-api'', wt_status = Active,
         wt_createdAt = local_2024_01_01 tz 9 30, wt_lastActivity = local_2024_01_01 tz 11 45,
         wt_claudeTask = None \<rparr> ]"

definition initial_tasks :: "int \<Rightarrow> ClaudeTask list" where
  "initial_tasks tz =
     [ \<lparr> task_id = ''task-1'',
         description = ''Implement user authentication components'',
         status = Running,
         startedAt = Some (local_2024_01_01 tz 12 0),
         completedAt = None,
         task_output = [''Starting task...'', ''Creating Login component'',
                        ''Adding form validation'', ''Implementing auth hooks''],
         workingDirectory = ''/tmp/frontend-feature'' \<rparr>,
       \<lparr> task_id = ''task-2'',
         description = ''Add JWT authentication endpoints'',
         status = Completed,
         startedAt = Some (local_2024_01_01 tz 10 30),
         completedAt = Some (local_2024_01_01 tz 11 45),
         task_output = [''Task completed successfully'', ''Added /auth/login endpoint'',
                        ''Added /auth/refresh endpoint'', ''Updated user types''],
         workingDirectory = ''/tmp/backend-api'' \<rparr> ]"

text \<open>The store when the module has loaded: two worktrees, two tasks, no timer.\<close>

definition initial_state :: "int \<Rightarrow> mock_state" where
  "initial_state tz =
     \<lparr> mockWorktrees = initial_worktrees tz,
       mockTasks = zip [0, 1] (initial_tasks tz),
       timeouts = [] \<rparr>"

text \<open>
  The three recommendation strings start with an emoji; a string here is its UTF-8 bytes.
\<close>

definition mockOverlapAnalysis :: "int \<Rightarrow> OverlapAnalysis" where
  "mockOverlapAnalysis tz =
     \<lparr> totalOverlaps = 2,
       fileOverlaps =
         [ \<lparr> filePath = ''types/index.ts'',
             worktrees = [''frontend-feature'', ''backend-api''],
             conflictRisk = High,
             lastModified = [(''frontend-feature'', local_2024_01_01 tz 12 30),
                             (''backend-api'', local_2024_01_01 tz 11 45)] \<rparr>,
           \<lparr> filePath = ''package.json'',
             worktrees = [''frontend-feature'', ''backend-api''],
             conflictRisk = Medium,
             lastModified = [(''frontend-feature'', local_2024_01_01 tz 10 15),
                             (''backend-api'', local_2024_01_01 tz 9 45)] \<rparr> ],
       riskAssessment = \<lparr> low = 0, medium = 1, high = 1 \<rparr>,
       recommendations =
         [ [CHR 0xE2, CHR 0x9A, CHR 0xA0, CHR 0xEF, CHR 0xB8, CHR 0x8F] @
             '' 1 files have high conflict risk. Consider coordinating changes or merging frequently.'',
           [CHR 0xE2, CHR 0x9A, CHR 0xA1] @
             '' 1 files have medium conflict risk. Review changes before merging.'',
           [CHR 0xF0, CHR 0x9F, CHR 0x94, CHR 0xA5] @
             '' Most problematic file: types/index.ts (modified in 2 worktrees)'' ] \<rparr>"

text \<open>\<open>case 'analyze_worktree_overlaps': return mockOverlapAnalysis\<close>, whatever the store holds.\<close>

definition analyze_worktree_overlaps :: "int \<Rightarrow> string \<Rightarrow> mock_state \<Rightarrow> OverlapAnalysis" where
  "analyze_worktree_overlaps tz repoPath st = mockOverlapAnalysis tz"

subsection \<open>The mock objects as the hooks see them\<close>

text \<open>
  The commands return the store's own objects (\<open>return mockTasks as T\<close>), whose property
  names are those of the interfaces: camelCase. An optional field that is absent is no property.
\<close>

definition js_of_task_status :: "task_status \<Rightarrow> jsval" where
  "js_of_task_status s =
     (case s of Pending \<Rightarrow> JStr ''pending'' | Running \<Rightarrow> JStr ''running''
      | Completed \<Rightarrow> JStr ''completed'' | Failed \<Rightarrow> JStr ''failed'')"

definition js_of_worktree_status :: "worktree_status \<Rightarrow> jsval" where
  "js_of_worktree_status s =
     (case s of Active \<Rightarrow> JStr ''active'' | Idle \<Rightarrow> JStr ''idle'' | Errored \<Rightarrow> JStr ''error'')"

definition js_of_risk :: "risk \<Rightarrow> jsval" where
  "js_of_risk r = (case r of Low \<Rightarrow> JStr ''low'' | Medium \<Rightarrow> JStr ''medium'' | High \<Rightarrow> JStr ''high'')"

definition optional_prop :: "string \<Rightarrow> 'a option \<Rightarrow> ('a \<Rightarrow> jsval) \<Rightarrow> (string \<times> jsval) list" where
  "optional_prop k v f = (case v of None \<Rightarrow> [] | Some x \<Rightarrow> [(k, f x)])"

definition js_of_task :: "ClaudeTask \<Rightarrow> jsval" where
  "js_of_task t =
     JObj ([ (''id'', JStr (task_id t)),
             (''description'', JStr (description t)),
             (''status'', js_of_task_status (status t)) ] @
           optional_prop ''startedAt'' (startedAt t) JDate @
           optional_prop ''completedAt'' (completedAt t) JDate @
           [ (''output'', JArr (map JStr (task_output t))),
             (''workingDirectory'', JStr (workingDirectory t)) ])"

definition js_of_worktree :: "GitWorktree \<Rightarrow> jsval" where
  "js_of_worktree wt =
     JObj ([ (''id'', JStr (wt_id wt)),
             (''name'', JStr (wt_name wt)),
             (''branch'', JStr (wt_branch wt)),
             (''path'', JStr (wt_path wt)),
             (''status'', js_of_worktree_status (wt_status wt)),
             (''createdAt'', JDate (wt_createdAt wt)),
             (''lastActivity'', JDate (wt_lastActivity wt)) ] @
           optional_prop ''claudeTask'' (wt_claudeTask wt) js_of_task)"

definition js_of_overlap :: "FileOverlap \<Rightarrow> jsval" where
  "js_of_overlap fo =
     JObj [ (''filePath'', JStr (filePath fo)),
            (''worktrees'', JArr (map JStr (worktrees fo))),
            (''conflictRisk'', js_of_risk (conflictRisk fo)),
            (''lastModified'', JObj (map (\<lambda>(k, d). (k, JDate d)) (lastModified fo))) ]"

definition js_of_analysis :: "OverlapAnalysis \<Rightarrow> jsval" where
  "js_of_analysis a =
     JObj [ (''totalOverlaps'', JNum (of_nat (totalOverlaps a))),
            (''fileOverlaps'', JArr (map js_of_overlap (fileOverlaps a))),
            (''riskAssessment'',
               JObj [ (''low'', JNum (of_nat (low (riskAssessment a)))),
                      (''medium'', JNum (of_nat (medium (riskAssessment a)))),
                      (''high'', JNum (of_nat (high (riskAssessment a)))) ]),
            (''recommendations'', JArr (map JStr (recommendations a))) ]"

text \<open>\<open>case 'analyze_file_dependencies'\<close>: a literal, with the backend's snake_case names.\<close>

definition mock_file_dependencies :: jsval where
  "mock_file_dependencies =
     JArr [ JObj [ (''file_path'', JStr ''src/App.tsx''),
                   (''dependencies'', JArr [JStr ''./components/Header'', JStr ''./hooks/useAuth'']),
                   (''dependents'', JArr []),
                   (''impact_score'', JNum (17 / 2)) ],
            JObj [ (''file_path'', JStr ''types/index.ts''),
                   (''dependencies'', JArr []),
                   (''dependents'', JArr [JStr ''src/App.tsx'', JStr ''src/components/UserList.tsx'']),
                   (''impact_score'', JNum (46 / 5)) ] ]"

subsection \<open>invoke\<close>

text \<open>
  A command with the arguments its callers pass (the hooks' parameters are typed
  \<open>string\<close>); \<open>Other_command\<close> is any other command name.
\<close>

datatype command =
    List_worktrees string
  | Create_worktree string string string
  | Delete_worktree string string
  | Get_worktree_status
  | Get_modified_files
  | List_claude_tasks
  | Start_claude_task string string string
  | Get_claude_task_status string
  | Cancel_claude_task string
  | Cleanup_completed_claude_tasks
  | Analyze_worktree_overlaps string
  | Analyze_file_dependencies string "string list"
  | Other_command string

text \<open>
  The environment of the module: \<open>tauriInvoke\<close> is the backend's \<open>invoke\<close> when the page runs
  inside Tauri and \<open>None\<close> (\<open>null\<close>) in web mode; a call of it resolves to a value or
  rejects. \<open>tz\<close> is the local time zone's offset.
\<close>

record env =
  tauriInvoke :: "(command \<Rightarrow> js_exn + jsval) option"
  tz :: int

text \<open>
  The \<open>switch\<close> of the mock implementations, run at time \<open>now\<close>. The simulated network delay
  before it only decides when it runs. The first argument is the time zone's offset, which
  only the literals of the mock data read.
\<close>

fun mock_invoke :: "int \<Rightarrow> command \<Rightarrow> date \<Rightarrow> mock_state \<Rightarrow> (js_exn + jsval) \<times> mock_state" where
  "mock_invoke z (List_worktrees repoPath) now st =
     (Inr (JArr (map js_of_worktree (mockWorktrees st))), st)"
| "mock_invoke z (Create_worktree repoPath name branch) now st =
     (case create_worktree name branch now st of (wt, st') \<Rightarrow> (Inr (js_of_worktree wt), st'))"
| "mock_invoke z (Delete_worktree repoPath name) now st =
     (Inr JUndefined, delete_worktree name st)"
| "mock_invoke z Get_worktree_status now st = (Inr (JArr (map JStr get_worktree_status)), st)"
| "mock_invoke z Get_modified_files now st = (Inr (JArr (map JStr get_modified_files)), st)"
| "mock_invoke z List_claude_tasks now st =
     (Inr (JArr (map (js_of_task \<circ> snd) (mockTasks st))), st)"
| "mock_invoke z (Start_claude_task worktreeName workingDir taskDescription) now st =
     (case start_claude_task worktreeName workingDir taskDescription now st of
        (taskId, st') \<Rightarrow> (Inr (JStr taskId), st'))"
| "mock_invoke z (Get_claude_task_status taskId) now st =
     (case get_claude_task_status taskId st of
        None \<Rightarrow> (Inr JUndefined, st)
      | Some task \<Rightarrow> (Inr (js_of_task task), st))"
| "mock_invoke z (Cancel_claude_task taskId) now st =
     (Inr JUndefined, cancel_claude_task taskId now st)"
| "mock_invoke z Cleanup_completed_claude_tasks now st =
     (case cleanup_completed_claude_tasks now st of
        Inl e \<Rightarrow> (Inl e, st)
      | Inr (n, st') \<Rightarrow> (Inr (JNum (of_nat n)), st'))"
| "mock_invoke z (Analyze_worktree_overlaps repoPath) now st =
     (Inr (js_of_analysis (analyze_worktree_overlaps z repoPath st)), st)"
| "mock_invoke z (Analyze_file_dependencies repoPath filePaths) now st =
     (Inr mock_file_dependencies, st)"
| "mock_invoke z (Other_command c) now st =
     (Inl (Error (''Command '' @ c @ '' not implemented in mock mode'')), st)"

text \<open>
  \<open>invoke\<close>: the backend's result when there is a backend and its call succeeds; the mock
  implementation when there is no backend, and also when the backend's call fails (the
  \<open>catch\<close> logs and falls through to the \<open>switch\<close>).
\<close>

definition invoke :: "env \<Rightarrow> command \<Rightarrow> date \<Rightarrow> mock_state \<Rightarrow> (js_exn + jsval) \<times> mock_state" where
  "invoke e command now st =
     (case tauriInvoke e of
        Some backend \<Rightarrow>
          (case backend command of
             Inr result \<Rightarrow> (Inr result, st)
           | Inl error \<Rightarrow> mock_invoke (tz e) command now st)
      | None \<Rightarrow> mock_invoke (tz e) command now st)"

text \<open>Web mode: \<open>'__TAURI__' in window\<close> is false, so \<open>tauriInvoke\<close> stays \<open>null\<close>.\<close>

definition web_mode :: "int \<Rightarrow> env" where
  "web_mode z = \<lparr> tauriInvoke = None, tz = z \<rparr>"

text \<open>
  Tauri mode with a backend that is down: every call of it is rejected, with a plain
  string as Tauri does.
\<close>

definition unavailable_backend :: "command \<Rightarrow> js_exn + jsval" where
  "unavailable_backend c = Inl (Thrown (JStr ''backend unavailable''))"

definition tauri_mode_unavailable :: "int \<Rightarrow> env" where
  "tauri_mode_unavailable z = \<lparr> tauriInvoke = Some unavailable_backend, tz = z \<rparr>"

section \<open>The task hook (hooks/useClaudeCode.ts)\<close>

text \<open>Sequencing of steps that may throw: the first exception ends the \<open>try\<close> block.\<close>

definition and_then :: "js_exn + 'a \<Rightarrow> ('a \<Rightarrow> js_exn + 'b) \<Rightarrow> js_exn + 'b" where
  "and_then r f = (case r of Inl e \<Rightarrow> Inl e | Inr v \<Rightarrow> f v)"

fun map_throwing :: "('a \<Rightarrow> js_exn + 'b) \<Rightarrow> 'a list \<Rightarrow> js_exn + 'b list" where
  "map_throwing f [] = Inr []"
| "map_throwing f (x # xs) =
     and_then (f x) (\<lambda>y. and_then (map_throwing f xs) (\<lambda>ys. Inr (y # ys)))"

text \<open>
  \<open>what.map(f)\<close> on an untyped value: it maps an array, cannot read \<open>map\<close> of
  \<open>undefined\<close> or \<open>null\<close>, and finds no function \<open>map\<close> on anything else.
\<close>

definition js_array_map :: "string \<Rightarrow> (jsval \<Rightarrow> js_exn + jsval) \<Rightarrow> jsval \<Rightarrow> js_exn + jsval" where
  "js_array_map what f v =
     (case v of
        JArr xs \<Rightarrow> and_then (map_throwing f xs) (\<lambda>ys. Inr (JArr ys))
      | JUndefined \<Rightarrow> Inl (TypeError (cannot_read ''undefined'' ''map''))
      | JNull \<Rightarrow> Inl (TypeError (cannot_read ''null'' ''map''))
      | _ \<Rightarrow> Inl (TypeError (what @ ''.map is not a function'')))"

text \<open>\<open>x ? new Date(x) : undefined\<close>.\<close>

definition date_or_undefined :: "jsval \<Rightarrow> jsval" where
  "date_or_undefined x = (if truthy x then JNewDate x else JUndefined)"

text \<open>
  The object literal that \<open>refreshTasks\<close> and \<open>getTaskStatus\<close> both build from a backend
  task: the backend's names are snake_case (\<open>started_at\<close>, \<open>completed_at\<close>,
  \<open>working_directory\<close>).
\<close>

definition map_task :: "jsval \<Rightarrow> js_exn + jsval" where
  "map_task task =
     and_then (get_prop task ''id'') (\<lambda>i.
     and_then (get_prop task ''description'') (\<lambda>d.
     and_then (get_prop task ''status'') (\<lambda>s.
     and_then (get_prop task ''started_at'') (\<lambda>sa.
     and_then (get_prop task ''completed_at'') (\<lambda>ca.
     and_then (get_prop task ''output'') (\<lambda>out.
     and_then (get_prop task ''working_directory'') (\<lambda>wd.
       Inr (JObj [ (''id'', i), (''description'', d), (''status'', s),
                   (''startedAt'', date_or_undefined sa),
                   (''completedAt'', date_or_undefined ca),
                   (''output'', out), (''workingDirectory'', wd) ]))))))))"

text \<open>The hook's React state: \<open>useState([])\<close>, \<open>useState(true)\<close>, \<open>useState(null)\<close>.\<close>

record claude_code =
  tasks :: "jsval list"
  loading :: bool
  error :: "string option"

definition initial_claude_code :: claude_code where
  "initial_claude_code = \<lparr> tasks = [], loading = True, error = None \<rparr>"

text \<open>
  \<open>refreshTasks\<close>, in its two halves around the \<open>await\<close>: what runs before the command is
  sent, and what runs when its promise settles. It never throws. (A mapped value that is
  no array cannot occur; that branch only makes the function total.)
\<close>

definition refresh_begin :: "claude_code \<Rightarrow> claude_code" where
  "refresh_begin h = h\<lparr> loading := True, error := None \<rparr>"

definition refresh_settle :: "js_exn + jsval \<Rightarrow> claude_code \<Rightarrow> claude_code" where
  "refresh_settle reply h =
     (case and_then reply (js_array_map ''result'' map_task) of
        Inr (JArr mappedTasks) \<Rightarrow> h\<lparr> tasks := mappedTasks, loading := False \<rparr>
      | Inr v \<Rightarrow> h\<lparr> loading := False \<rparr>
      | Inl err \<Rightarrow> h\<lparr> error := Some (message_or err ''Failed to load Claude tasks''),
                       loading := False \<rparr>)"

definition refreshTasks :: "env \<Rightarrow> date \<Rightarrow> claude_code \<times> mock_state \<Rightarrow> claude_code \<times> mock_state" where
  "refreshTasks e now w =
     (case w of (h, st) \<Rightarrow>
        (case invoke e List_claude_tasks now st of
           (reply, st') \<Rightarrow> (refresh_settle reply (refresh_begin h), st')))"

text \<open>
  The operations return what the promise settles to, with the hook's and the store's
  state afterwards. Each runs here without another event in between its awaits.
\<close>

definition startTask ::
  "env \<Rightarrow> string \<Rightarrow> string \<Rightarrow> string \<Rightarrow> date \<Rightarrow> claude_code \<times> mock_state
     \<Rightarrow> (js_exn + jsval) \<times> claude_code \<times> mock_state" where
  "startTask e worktreeName workingDir descr now w =
     (case w of (h, st) \<Rightarrow>
        (case invoke e (Start_claude_task worktreeName workingDir descr) now st of
           (Inr taskId, st') \<Rightarrow> (Inr taskId, refreshTasks e now (h\<lparr> error := None \<rparr>, st'))
         | (Inl err, st') \<Rightarrow>
             (let errorMessage = message_or err ''Failed to start Claude task''
              in (Inl (Error errorMessage), h\<lparr> error := Some errorMessage \<rparr>, st'))))"

definition cancelTask ::
  "env \<Rightarrow> string \<Rightarrow> date \<Rightarrow> claude_code \<times> mock_state
     \<Rightarrow> (js_exn + jsval) \<times> claude_code \<times> mock_state" where
  "cancelTask e taskId now w =
     (case w of (h, st) \<Rightarrow>
        (case invoke e (Cancel_claude_task taskId) now st of
           (Inr v, st') \<Rightarrow> (Inr JUndefined, refreshTasks e now (h\<lparr> error := None \<rparr>, st'))
         | (Inl err, st') \<Rightarrow>
             (let errorMessage = message_or err ''Failed to cancel task''
              in (Inl (Error errorMessage), h\<lparr> error := Some errorMessage \<rparr>, st'))))"

definition getTaskStatus ::
  "env \<Rightarrow> string \<Rightarrow> date \<Rightarrow> mock_state \<Rightarrow> (js_exn + jsval) \<times> mock_state" where
  "getTaskStatus e taskId now st =
     (case invoke e (Get_claude_task_status taskId) now st of
        (reply, st') \<Rightarrow>
          (case and_then reply map_task of
             Inr task \<Rightarrow> (Inr task, st')
           | Inl err \<Rightarrow> (Inl (Error (message_or err ''Failed to get task status'')), st')))"

definition cleanupCompletedTasks ::
  "env \<Rightarrow> date \<Rightarrow> claude_code \<times> mock_state \<Rightarrow> (js_exn + jsval) \<times> claude_code \<times> mock_state" where
  "cleanupCompletedTasks e now w =
     (case w of (h, st) \<Rightarrow>
        (case invoke e Cleanup_completed_claude_tasks now st of
           (Inr cleanedCount, st') \<Rightarrow> (Inr cleanedCount, refreshTasks e now (h, st'))
         | (Inl err, st') \<Rightarrow>
             (Inl (Error (message_or err ''Failed to cleanup tasks'')), h, st')))"

text \<open>
  \<open>handleStartTask\<close> of the worktree list, the one caller of \<open>startTask\<close>:
  \<open>if (!description) return\<close>, where the description typed for the worktree may be absent.
  It logs a failure and returns nothing.
\<close>

definition handleStartTask ::
  "env \<Rightarrow> GitWorktree \<Rightarrow> string option \<Rightarrow> date \<Rightarrow> claude_code \<times> mock_state
     \<Rightarrow> claude_code \<times> mock_state" where
  "handleStartTask e worktree descr now w =
     (case descr of
        None \<Rightarrow> w
      | Some d \<Rightarrow> if d = [] then w
                  else snd (startTask e (wt_name worktree) (wt_path worktree) d now w))"

section \<open>The refresh driver (the effect of useClaudeCode)\<close>

text \<open>
  The effect runs \<open>refreshTasks()\<close>, then \<open>setInterval(refreshTasks, 5000)\<close>; its cleanup is
  \<open>clearInterval(interval)\<close>. The driver's state: the period of the interval timer while
  it is set, the number of \<open>refreshTasks\<close> calls whose command has not settled yet, and the
  number of calls begun so far.
\<close>

record driver =
  interval :: "nat option"
  in_flight :: nat
  begun :: nat

definition idle_driver :: driver where
  "idle_driver = \<lparr> interval = None, in_flight = 0, begun = 0 \<rparr>"

text \<open>A call of \<open>refreshTasks\<close> up to its \<open>await\<close>: nothing in it looks at \<open>loading\<close>.\<close>

definition call_refresh :: "driver \<Rightarrow> driver" where
  "call_refresh d = d\<lparr> in_flight := Suc (in_flight d), begun := Suc (begun d) \<rparr>"

datatype driver_event = Mount | Tick | Settled | Unmount

text \<open>
  \<open>Mount\<close> runs the effect, \<open>Unmount\<close> its cleanup. \<open>Tick\<close> is the timer's period elapsing:
  the callback runs if the interval is still set. \<open>Settled\<close> is the command of one call
  in flight resolving or rejecting (with none in flight there is nothing to settle, and the
  state stays as it is).
\<close>

fun driver_step :: "driver_event \<Rightarrow> driver \<Rightarrow> driver" where
  "driver_step Mount d = (call_refresh d)\<lparr> interval := Some 5000 \<rparr>"
| "driver_step Tick d = (case interval d of None \<Rightarrow> d | Some period \<Rightarrow> call_refresh d)"
| "driver_step Settled d = d\<lparr> in_flight := in_flight d - 1 \<rparr>"
| "driver_step Unmount d = d\<lparr> interval := None \<rparr>"

definition driver_run :: "driver_event list \<Rightarrow> driver \<Rightarrow> driver" where
  "driver_run evs d = fold driver_step evs d"

section \<open>The overlap hook (hooks/useOverlapAnalysis.ts)\<close>

text \<open>
  \<open>Object.entries(v)\<close>: the own properties of an object, the indexed elements of an array or
  a string, nothing for another primitive or a Date; it throws on \<open>undefined\<close> and \<open>null\<close>.
\<close>

definition object_entries :: "jsval \<Rightarrow> js_exn + (string \<times> jsval) list" where
  "object_entries v =
     (case v of
        JUndefined \<Rightarrow> Inl (TypeError ''Cannot convert undefined or null to object'')
      | JNull \<Rightarrow> Inl (TypeError ''Cannot convert undefined or null to object'')
      | JObj kvs \<Rightarrow> Inr kvs
      | JArr xs \<Rightarrow> Inr (zip (map digits [0 ..< length xs]) xs)
      | JStr s \<Rightarrow> Inr (zip (map digits [0 ..< length s]) (map (\<lambda>c. JStr [c]) s))
      | _ \<Rightarrow> Inr [])"

definition map_overlap :: "jsval \<Rightarrow> js_exn + jsval" where
  "map_overlap overlap =
     and_then (get_prop overlap ''file_path'') (\<lambda>fp.
     and_then (get_prop overlap ''worktrees'') (\<lambda>wts.
     and_then (get_prop overlap ''conflict_risk'') (\<lambda>cr.
     and_then (get_prop overlap ''last_modified'') (\<lambda>lm.
     and_then (object_entries lm) (\<lambda>entries.
       Inr (JObj [ (''filePath'', fp), (''worktrees'', wts), (''conflictRisk'', cr),
                   (''lastModified'', JObj (map (\<lambda>(key, v). (key, JNewDate v)) entries)) ]))))))"

definition map_analysis :: "jsval \<Rightarrow> js_exn + jsval" where
  "map_analysis result =
     and_then (get_prop result ''total_overlaps'') (\<lambda>total.
     and_then (get_prop result ''file_overlaps'') (\<lambda>fos.
     and_then (js_array_map ''result.file_overlaps'' map_overlap fos) (\<lambda>mapped.
     and_then (get_prop result ''risk_assessment'') (\<lambda>ra.
     and_then (get_prop ra ''low'') (\<lambda>l.
     and_then (get_prop ra ''medium'') (\<lambda>m.
     and_then (get_prop ra ''high'') (\<lambda>hi.
     and_then (get_prop result ''recommendations'') (\<lambda>recs.
       Inr (JObj [ (''totalOverlaps'', total), (''fileOverlaps'', mapped),
                   (''riskAssessment'', JObj [(''low'', l), (''medium'', m), (''high'', hi)]),
                   (''recommendations'', recs) ])))))))))"

record overlap_hook =
  overlapAnalysis :: "jsval option"
  oa_loading :: bool
  oa_error :: "string option"

definition analyzeOverlaps ::
  "env \<Rightarrow> string \<Rightarrow> date \<Rightarrow> overlap_hook \<times> mock_state \<Rightarrow> overlap_hook \<times> mock_state" where
  "analyzeOverlaps e repoPath now w =
     (case w of (h, st) \<Rightarrow>
        (case invoke e (Analyze_worktree_overlaps repoPath) now st of
           (reply, st') \<Rightarrow>
             (case and_then reply map_analysis of
                Inr mappedAnalysis \<Rightarrow>
                  (h\<lparr> overlapAnalysis := Some mappedAnalysis, oa_error := None,
                      oa_loading := False \<rparr>, st')
              | Inl err \<Rightarrow>
                  (h\<lparr> oa_error := Some (message_or err ''Failed to analyze overlaps''),
                      oa_loading := False \<rparr>, st'))))"





section \<open>The claim's words, for comparison with the code\<close>

text \<open>
  The condition of the cleanup as the specification words it: the task is completed and
  its \<open>completedAt\<close> lies more than one hour before the call time.
\<close>

definition older_than_one_hour :: "date \<Rightarrow> ClaudeTask \<Rightarrow> bool" where
  "older_than_one_hour now t =
     (status t = Completed \<and>
      (case completedAt t of None \<Rightarrow> False | Some c \<Rightarrow> now - c > 60 * 60 * 1000))"

section \<open>Verified properties\<close>

subsection \<open>The cleanup loop is a filter\<close>

lemma splice1_take: "i \<le> length ts \<Longrightarrow> take i (splice1 i ts) = take i ts"
  by (simp add: splice1_def)

lemma splice1_drop: "i \<le> length ts \<Longrightarrow> drop i (splice1 i ts) = drop (Suc i) ts"
  by (simp add: splice1_def)

lemma cleanup_loop_filter:
  "i \<le> length ts \<Longrightarrow>
   cleanup_loop h i ts = Inr (filter (\<lambda>x. \<not> stale h (snd x)) (take i ts) @ drop i ts)"
proof (induction i arbitrary: ts)
  case 0
  then show ?case by simp
next
  case (Suc i)
  then have lt: "i < length ts" by simp
  show ?case
  proof (cases "stale h (snd (ts ! i))")
    case True
    have "i \<le> length (splice1 i ts)" using lt by (simp add: splice1_def)
    from Suc.IH [OF this] True lt show ?thesis
      by (simp add: splice1_take splice1_drop take_Suc_conv_app_nth)
  next
    case False
    from Suc.IH [of ts] False lt show ?thesis
      by (simp add: take_Suc_conv_app_nth Cons_nth_drop_Suc)
  qed
qed

lemma cleanup_loop_all:
  "cleanup_loop h (length ts) ts = Inr (filter (\<lambda>x. \<not> stale h (snd x)) ts)"
  using cleanup_loop_filter [of "length ts" ts h] by simp

lemma length_filter_diff:
  "length xs - length (filter (\<lambda>x. \<not> P x) xs) = length (filter P xs)"
  using sum_length_filter_compl [of P xs] by simp

lemma cleanup_result:
  "cleanup_completed_claude_tasks now st =
     Inr (length (filter (\<lambda>x. stale (now - 3600000) (snd x)) (mockTasks st)),
          st\<lparr> mockTasks := filter (\<lambda>x. \<not> stale (now - 3600000) (snd x)) (mockTasks st) \<rparr>)"
  by (simp add: cleanup_completed_claude_tasks_def cleanup_loop_all length_filter_diff Let_def)

subsection \<open>References, mutation and lookup\<close>

lemma fold_max_ge: "a \<le> fold max xs (a::nat)"
  by (induction xs arbitrary: a) (auto intro: order_trans [OF max.cobounded2])

lemma fold_max_mem: "x \<in> set xs \<Longrightarrow> x \<le> fold max xs (a::nat)"
proof (induction xs arbitrary: a)
  case Nil
  then show ?case by simp
next
  case (Cons y ys)
  show ?case
  proof (cases "x = y")
    case True
    have "y \<le> max y a" by simp
    also have "\<dots> \<le> fold max ys (max y a)" by (rule fold_max_ge)
    finally show ?thesis using True by simp
  next
    case False
    with Cons show ?thesis by simp
  qed
qed

lemma new_ref_fresh_tasks: "new_ref st \<notin> fst ` set (mockTasks st)"
proof
  assume "new_ref st \<in> fst ` set (mockTasks st)"
  then have "new_ref st \<in> set (map fst (mockTasks st) @ map snd (timeouts st))" by auto
  from fold_max_mem [OF this, of 0] show False by (simp add: new_ref_def)
qed

lemma new_ref_fresh_timeouts: "new_ref st \<notin> snd ` set (timeouts st)"
proof
  assume "new_ref st \<in> snd ` set (timeouts st)"
  then have "new_ref st \<in> set (map fst (mockTasks st) @ map snd (timeouts st))" by auto
  from fold_max_mem [OF this, of 0] show False by (simp add: new_ref_def)
qed

lemma mutate_absent: "r \<notin> fst ` set ts \<Longrightarrow> mutate r f ts = ts"
  by (induction ts) (auto simp: mutate_def)

lemma mutate_append: "mutate r f (xs @ ys) = mutate r f xs @ mutate r f ys"
  by (simp add: mutate_def)

lemma find_task_append_new:
  "find_task i ts = None \<Longrightarrow> task_id t = i \<Longrightarrow> find_task i (ts @ [(r, t)]) = Some (r, t)"
  by (induction ts) (auto simp: find_task_def split: if_splits)


lemma find_task_mutate:
  "find_task i ts = Some (r, t) \<Longrightarrow> (\<And>u. task_id (f u) = task_id u) \<Longrightarrow>
   find_task i (mutate r f ts) = Some (r, f t)"
  by (induction ts) (auto simp: find_task_def mutate_def split: if_splits)

subsection \<open>Cleanup of completed tasks\<close>

lemma stale_iff: "stale (now - 3600000) t = older_than_one_hour now t"
  by (auto simp: stale_def older_than_one_hour_def split: option.splits)

text \<open>
  Claim C3. For every task list and call time, \<open>cleanup_completed_claude_tasks\<close> removes
  exactly the tasks that are completed and whose \<open>completedAt\<close> is more than one hour before
  the call time, keeping the others in their order; it returns the number removed; every
  task that is not completed (pending, running, failed) stays; worktrees and timers are
  untouched; and a second call at the same call time returns 0 and changes nothing. In web
  mode the hook's \<open>cleanupCompletedTasks\<close> resolves to that number.
\<close>

theorem cleanup_removes_exactly_old_completed:
  "\<exists>st'. cleanup_completed_claude_tasks now st =
            Inr (length (filter (\<lambda>x. older_than_one_hour now (snd x)) (mockTasks st)), st')
     \<and> mockTasks st' = filter (\<lambda>x. \<not> older_than_one_hour now (snd x)) (mockTasks st)
     \<and> mockWorktrees st' = mockWorktrees st \<and> timeouts st' = timeouts st
     \<and> (\<forall>x \<in> set (mockTasks st). status (snd x) \<noteq> Completed \<longrightarrow> x \<in> set (mockTasks st'))
     \<and> cleanup_completed_claude_tasks now st' = Inr (0, st')
     \<and> (tauriInvoke e = None \<longrightarrow>
          fst (cleanupCompletedTasks e now (h, st)) =
            Inr (JNum (of_nat (length (filter (\<lambda>x. older_than_one_hour now (snd x)) (mockTasks st))))))"
proof -
  let ?keep = "filter (\<lambda>x. \<not> older_than_one_hour now (snd x)) (mockTasks st)"
  let ?st' = "st\<lparr> mockTasks := ?keep \<rparr>"
  have first: "cleanup_completed_claude_tasks now st =
      Inr (length (filter (\<lambda>x. older_than_one_hour now (snd x)) (mockTasks st)), ?st')"
    by (simp add: cleanup_result stale_iff)
  have kept: "\<forall>x \<in> set (mockTasks st). status (snd x) \<noteq> Completed \<longrightarrow> x \<in> set ?keep"
    by (simp add: older_than_one_hour_def)
  have none: "filter (\<lambda>x. older_than_one_hour now (snd x)) ?keep = []"
    by (simp add: filter_empty_conv)
  have again: "filter (\<lambda>x. \<not> older_than_one_hour now (snd x)) ?keep = ?keep"
    by simp
  have second: "cleanup_completed_claude_tasks now ?st' = Inr (0, ?st')"
    by (simp add: cleanup_result stale_iff none again)
  have hook: "tauriInvoke e = None \<longrightarrow>
          fst (cleanupCompletedTasks e now (h, st)) =
            Inr (JNum (of_nat (length (filter (\<lambda>x. older_than_one_hour now (snd x)) (mockTasks st)))))"
    by (simp add: cleanupCompletedTasks_def invoke_def first)
  from first kept second hook show ?thesis by auto
qed

theorem cleanup_removes_exactly_old_completed_witness:
  "cleanup_completed_claude_tasks (local_2024_01_01 0 13 0) (initial_state 0) =
     Inr (1, (initial_state 0)\<lparr> mockTasks := [(0, hd (initial_tasks 0))] \<rparr>)
   \<and> cleanup_completed_claude_tasks (local_2024_01_01 0 13 0)
        ((initial_state 0)\<lparr> mockTasks := [(0, hd (initial_tasks 0))] \<rparr>) =
     Inr (0, (initial_state 0)\<lparr> mockTasks := [(0, hd (initial_tasks 0))] \<rparr>)
   \<and> fst (cleanupCompletedTasks (web_mode 0) (local_2024_01_01 0 13 0)
            (initial_claude_code, initial_state 0)) = Inr (JNum 1)"
proof -
  let ?now = "local_2024_01_01 0 13 0"
  let ?st = "initial_state 0"
  from cleanup_removes_exactly_old_completed
         [where now = ?now and st = ?st and e = "web_mode 0" and h = initial_claude_code]
  obtain st' where all:
    "cleanup_completed_claude_tasks ?now ?st =
          Inr (length (filter (\<lambda>x. older_than_one_hour ?now (snd x)) (mockTasks ?st)), st')
     \<and> mockTasks st' = filter (\<lambda>x. \<not> older_than_one_hour ?now (snd x)) (mockTasks ?st)
     \<and> mockWorktrees st' = mockWorktrees ?st \<and> timeouts st' = timeouts ?st
     \<and> (\<forall>x \<in> set (mockTasks ?st). status (snd x) \<noteq> Completed \<longrightarrow> x \<in> set (mockTasks st'))
     \<and> cleanup_completed_claude_tasks ?now st' = Inr (0, st')
     \<and> (tauriInvoke (web_mode 0) = None \<longrightarrow>
          fst (cleanupCompletedTasks (web_mode 0) ?now (initial_claude_code, ?st)) =
            Inr (JNum (of_nat (length (filter (\<lambda>x. older_than_one_hour ?now (snd x)) (mockTasks ?st))))))"
    ..
  note r = all [THEN conjunct1]
  note k = all [THEN conjunct2, THEN conjunct1]
  note w = all [THEN conjunct2, THEN conjunct2, THEN conjunct1]
  note t = all [THEN conjunct2, THEN conjunct2, THEN conjunct2, THEN conjunct1]
  note s = all [THEN conjunct2, THEN conjunct2, THEN conjunct2, THEN conjunct2, THEN conjunct2,
                THEN conjunct1]
  note c = all [THEN conjunct2, THEN conjunct2, THEN conjunct2, THEN conjunct2, THEN conjunct2,
                THEN conjunct2]
  have keep: "filter (\<lambda>x. \<not> older_than_one_hour ?now (snd x)) (mockTasks ?st) = [(0, hd (initial_tasks 0))]"
    by (simp add: initial_state_def initial_tasks_def older_than_one_hour_def local_2024_01_01_def)
  have cnt: "length (filter (\<lambda>x. older_than_one_hour ?now (snd x)) (mockTasks ?st)) = 1"
    by (simp add: initial_state_def initial_tasks_def older_than_one_hour_def local_2024_01_01_def)
  have eq: "st' = ?st\<lparr> mockTasks := [(0, hd (initial_tasks 0))] \<rparr>"
    using k w t keep by (cases st') (simp add: initial_state_def)
  have web: "tauriInvoke (web_mode 0) = None" by (simp add: web_mode_def)
  from c web cnt have hook: "fst (cleanupCompletedTasks (web_mode 0) ?now (initial_claude_code, ?st)) =
      Inr (JNum 1)" by simp
  from r s cnt eq hook show ?thesis by simp
qed

subsection \<open>The store at load time, and what the task cases compute\<close>


lemma number_string_1704114000000: "number_string 1704114000000 = ''1704114000000''"
  by (simp add: number_string_def digits.simps digit_char_def)

lemma new_ref_initial: "new_ref (initial_state z) = 2"
  by (simp add: new_ref_def initial_state_def initial_tasks_def)

lemma find_task_2: "find_task ''task-2'' (mockTasks (initial_state z)) = Some (1, initial_tasks z ! 1)"
  by (simp add: find_task_def initial_state_def initial_tasks_def)

lemma find_task_initial_other:
  "i \<noteq> ''task-1'' \<Longrightarrow> i \<noteq> ''task-2'' \<Longrightarrow> find_task i (mockTasks (initial_state z)) = None"
  by (simp add: find_task_def initial_state_def initial_tasks_def)

lemma start_result:
  "start_claude_task wn wd d now st =
     (''task-'' @ number_string now,
      st\<lparr> mockTasks := mockTasks st @ [(new_ref st, newTask d wd now)],
          timeouts := timeouts st @ [(5000, new_ref st)] \<rparr>)"
  by (simp add: start_claude_task_def Let_def newTask_def)

lemma newTask_id: "task_id (newTask d wd now) = ''task-'' @ number_string now"
  by (simp add: newTask_def)

lemma cancel_found:
  "find_task taskId (mockTasks st) = Some (r, t) \<Longrightarrow>
   get_claude_task_status taskId (cancel_claude_task taskId now st) = Some (cancel_mark now t)"
  by (simp add: get_claude_task_status_def cancel_claude_task_def find_task_mutate cancel_mark_def)

lemma cancel_unknown: "find_task taskId (mockTasks st) = None \<Longrightarrow> cancel_claude_task taskId now st = st"
  by (simp add: cancel_claude_task_def)

lemma run_timeout_after_start:
  "run_timeout (new_ref st) later (snd (start_claude_task wn wd d now st)) =
     st\<lparr> mockTasks := mockTasks st @ [(new_ref st, complete_task later (newTask d wd now))] \<rparr>"
proof -
  have f: "filter (\<lambda>(d, r'). r' \<noteq> new_ref st) (timeouts st) = timeouts st"
    using new_ref_fresh_timeouts [of st] by (force simp: filter_id_conv)
  have m: "mutate (new_ref st) (complete_task later) (mockTasks st) = mockTasks st"
    using new_ref_fresh_tasks [of st] by (rule mutate_absent)
  show ?thesis
    by (simp add: start_result run_timeout_def mutate_append m f) (simp add: mutate_def)
qed

lemma invoke_web: "tauriInvoke e = None \<Longrightarrow> invoke e c now st = mock_invoke (tz e) c now st"
  by (simp add: invoke_def)

lemma map_task_undefined: "map_task JUndefined = Inl (TypeError (cannot_read ''undefined'' ''id''))"
  by (simp add: map_task_def and_then_def)

lemma refreshTasks_store:
  "tauriInvoke e = None \<Longrightarrow> snd (refreshTasks e now (h, st)) = st"
  by (simp add: refreshTasks_def invoke_web)

lemma startTask_web:
  assumes "tauriInvoke e = None"
  shows "fst (startTask e wn wd d now (h, st)) = Inr (JStr (''task-'' @ number_string now))"
    and "snd (snd (startTask e wn wd d now (h, st))) = snd (start_claude_task wn wd d now st)"
  using assms by (simp_all add: startTask_def invoke_web start_result refreshTasks_store)


subsection \<open>Terminal states and cancellation\<close>

text \<open>
  Claim C1 says that a completed or failed task never changes status again, and that
  cancelling a task that is not running does not make it failed. The code evaluated where
  it differs: at load time \<open>task-2\<close> is completed, and \<open>cancel_claude_task\<close> on it sets
  its status to failed, overwrites its \<open>completedAt\<close> and appends the cancellation line
  (the case has no test of the status). The timer of \<open>start_claude_task\<close> has no such
  test either and is not cleared by a cancellation: a task started at 13:00:00, cancelled
  two seconds later (failed), is completed when its timer fires at 13:00:05.
\<close>

theorem cancel_of_completed_task_marks_it_failed:
  "map_option status (get_claude_task_status ''task-2'' (initial_state 0)) = Some Completed
   \<and> get_claude_task_status ''task-2''
       (cancel_claude_task ''task-2'' 1704114000000 (initial_state 0)) =
     Some ((initial_tasks 0 ! 1)
            \<lparr> status := Failed, completedAt := Some 1704114000000,
              task_output := task_output (initial_tasks 0 ! 1) @ [''Task cancelled by user''] \<rparr>)
   \<and> map_option status
        (get_claude_task_status ''task-1704114000000''
          (cancel_claude_task ''task-1704114000000'' 1704114002000
            (snd (start_claude_task ''frontend-feature'' ''/tmp/frontend-feature'' ''Add tests''
                    1704114000000 (initial_state 0))))) = Some Failed
   \<and> map_option status
        (get_claude_task_status ''task-1704114000000''
          (run_timeout 2 1704114005000
            (cancel_claude_task ''task-1704114000000'' 1704114002000
              (snd (start_claude_task ''frontend-feature'' ''/tmp/frontend-feature'' ''Add tests''
                      1704114000000 (initial_state 0)))))) = Some Completed"
proof -
  let ?st1 = "snd (start_claude_task ''frontend-feature'' ''/tmp/frontend-feature'' ''Add tests''
                    1704114000000 (initial_state 0))"
  let ?nt = "newTask ''Add tests'' ''/tmp/frontend-feature'' 1704114000000"
  have a: "map_option status (get_claude_task_status ''task-2'' (initial_state 0)) = Some Completed"
    by (simp add: get_claude_task_status_def find_task_2) (simp add: initial_tasks_def)
  have "get_claude_task_status ''task-2'' (cancel_claude_task ''task-2'' 1704114000000 (initial_state 0)) =
          Some (cancel_mark 1704114000000 (initial_tasks 0 ! 1))"
    by (rule cancel_found [OF find_task_2])
  then have b: "get_claude_task_status ''task-2''
       (cancel_claude_task ''task-2'' 1704114000000 (initial_state 0)) =
     Some ((initial_tasks 0 ! 1)
            \<lparr> status := Failed, completedAt := Some 1704114000000,
              task_output := task_output (initial_tasks 0 ! 1) @ [''Task cancelled by user''] \<rparr>)"
    by (simp add: cancel_mark_def)
  have f: "find_task ''task-1704114000000'' (mockTasks ?st1) = Some (2, ?nt)"
    using find_task_append_new [of "''task-1704114000000''" "mockTasks (initial_state 0)" ?nt 2]
    by (simp add: start_result new_ref_initial find_task_initial_other newTask_id
          number_string_1704114000000)
  have c0: "get_claude_task_status ''task-1704114000000''
             (cancel_claude_task ''task-1704114000000'' 1704114002000 ?st1) =
           Some (cancel_mark 1704114002000 ?nt)"
    by (rule cancel_found [OF f])
  then have c: "map_option status (get_claude_task_status ''task-1704114000000''
             (cancel_claude_task ''task-1704114000000'' 1704114002000 ?st1)) = Some Failed"
    by (simp add: cancel_mark_def)
  let ?st2 = "cancel_claude_task ''task-1704114000000'' 1704114002000 ?st1"
  have f2: "find_task ''task-1704114000000'' (mockTasks ?st2) = Some (2, cancel_mark 1704114002000 ?nt)"
    using c0 f by (simp add: cancel_claude_task_def find_task_mutate cancel_mark_def)
  have t2: "2 \<in> snd ` set (timeouts ?st2)"
    using f by (simp add: cancel_claude_task_def start_result new_ref_initial)
  have "find_task ''task-1704114000000'' (mockTasks (run_timeout 2 1704114005000 ?st2)) =
          Some (2, complete_task 1704114005000 (cancel_mark 1704114002000 ?nt))"
    using t2 f2 by (simp add: run_timeout_def find_task_mutate complete_task_def)
  then have d: "map_option status (get_claude_task_status ''task-1704114000000''
                  (run_timeout 2 1704114005000 ?st2)) = Some Completed"
    by (simp add: get_claude_task_status_def complete_task_def)
  from a b c d show ?thesis by simp
qed

subsection \<open>Unknown task identities\<close>

text \<open>
  Claim C2, as amended. For a task identity that the store does not hold, in web mode:
  \<open>get_claude_task_status\<close> finds nothing and returns \<open>undefined\<close>; the hook's
  \<open>getTaskStatus\<close> then fails, with a plain \<open>Error\<close> whose message is that of the
  TypeError of reading \<open>id\<close> of \<open>undefined\<close> (there is no not-found kind);
  \<open>cancel_claude_task\<close> changes nothing, and the hook's \<open>cancelTask\<close> resolves
  (to \<open>undefined\<close>) with the store as it was. No task is made up.
\<close>

theorem unknown_task_identity:
  assumes "tauriInvoke e = None" and "find_task taskId (mockTasks st) = None"
  shows "get_claude_task_status taskId st = None
       \<and> getTaskStatus e taskId now st = (Inl (Error (cannot_read ''undefined'' ''id'')), st)
       \<and> cancel_claude_task taskId now st = st
       \<and> fst (cancelTask e taskId now (h, st)) = Inr JUndefined
       \<and> snd (snd (cancelTask e taskId now (h, st))) = st"
proof -
  have g: "get_claude_task_status taskId st = None"
    using assms(2) by (simp add: get_claude_task_status_def)
  have s: "getTaskStatus e taskId now st = (Inl (Error (cannot_read ''undefined'' ''id'')), st)"
    using assms(1) g by (simp add: getTaskStatus_def invoke_web and_then_def map_task_undefined)
  have c: "cancel_claude_task taskId now st = st"
    using assms(2) by (rule cancel_unknown)
  have i: "invoke e (Cancel_claude_task taskId) now st = (Inr JUndefined, st)"
    using assms(1) c by (simp add: invoke_web)
  have l: "invoke e List_claude_tasks now st = (Inr (JArr (map (js_of_task \<circ> snd) (mockTasks st))), st)"
    using assms(1) by (simp add: invoke_web)
  have k: "fst (cancelTask e taskId now (h, st)) = Inr JUndefined"
    by (simp add: cancelTask_def i)
  have m: "snd (snd (cancelTask e taskId now (h, st))) = st"
    by (simp add: cancelTask_def i refreshTasks_def l)
  from g s c k m show ?thesis by simp
qed

text \<open>The amended claim at the store as loaded, for the identity \<open>task-404\<close>.\<close>

theorem unknown_task_identity_witness:
  "getTaskStatus (web_mode 0) ''task-404'' 1704114000000 (initial_state 0) =
     (Inl (Error ''Cannot read properties of undefined (reading 'id')''), initial_state 0)
   \<and> fst (cancelTask (web_mode 0) ''task-404'' 1704114000000 (initial_claude_code, initial_state 0)) =
       Inr JUndefined
   \<and> snd (snd (cancelTask (web_mode 0) ''task-404'' 1704114000000 (initial_claude_code, initial_state 0))) =
       initial_state 0"
proof -
  have a: "tauriInvoke (web_mode 0) = None" by (simp add: web_mode_def)
  have b: "find_task ''task-404'' (mockTasks (initial_state 0)) = None"
    by (simp add: find_task_initial_other)
  from unknown_task_identity [OF a b, of 1704114000000 initial_claude_code]
  show ?thesis by (simp add: cannot_read_def)
qed

text \<open>
  The claim as it was stated fails there: \<open>task-404\<close> is unknown, and \<open>cancelTask\<close>
  succeeds.
\<close>

theorem cancel_of_unknown_task_succeeds:
  "get_claude_task_status ''task-404'' (initial_state 0) = None
   \<and> fst (cancelTask (web_mode 0) ''task-404'' 1704114000000 (initial_claude_code, initial_state 0)) =
       Inr JUndefined"
proof -
  have b: "find_task ''task-404'' (mockTasks (initial_state 0)) = None"
    by (simp add: find_task_initial_other)
  have c: "cancel_claude_task ''task-404'' 1704114000000 (initial_state 0) = initial_state 0"
    using b by (rule cancel_unknown)
  have "invoke (web_mode 0) (Cancel_claude_task ''task-404'') 1704114000000 (initial_state 0) =
          (Inr JUndefined, initial_state 0)"
    by (simp add: invoke_def web_mode_def c)
  then show ?thesis using b by (simp add: cancelTask_def get_claude_task_status_def)
qed

subsection \<open>Starting a task\<close>

text \<open>
  Claim C6, as amended. \<open>startTask\<close> validates nothing: in web mode every request, whatever
  its working directory and description (the empty one too), resolves to the new identity
  and appends one running task with that description and directory. The one guard is in
  the caller \<open>handleStartTask\<close>, which returns without calling \<open>startTask\<close>, and without
  an error, when the description is absent or empty.
\<close>

theorem startTask_accepts_every_request:
  assumes "tauriInvoke e = None"
  shows "fst (startTask e wn wd d now (h, st)) = Inr (JStr (''task-'' @ number_string now))
       \<and> mockTasks (snd (snd (startTask e wn wd d now (h, st)))) =
           mockTasks st @ [(new_ref st, newTask d wd now)]
       \<and> status (newTask d wd now) = Running
       \<and> description (newTask d wd now) = d
       \<and> workingDirectory (newTask d wd now) = wd
       \<and> handleStartTask e wt None now (h, st) = (h, st)
       \<and> handleStartTask e wt (Some []) now (h, st) = (h, st)"
  using assms
  by (simp add: startTask_web start_result handleStartTask_def) (simp add: newTask_def)

text \<open>The amended claim for an empty description and a directory of no worktree.\<close>

theorem startTask_accepts_every_request_witness:
  "fst (startTask (web_mode 0) ''ghost'' ''/no/such/dir'' [] 1704114000000
          (initial_claude_code, initial_state 0)) = Inr (JStr ''task-1704114000000'')
   \<and> map (task_id \<circ> snd)
        (mockTasks (snd (snd (startTask (web_mode 0) ''ghost'' ''/no/such/dir'' [] 1704114000000
                                (initial_claude_code, initial_state 0))))) =
       [''task-1'', ''task-2'', ''task-1704114000000'']"
proof -
  have a: "tauriInvoke (web_mode 0) = None" by (simp add: web_mode_def)
  from startTask_accepts_every_request [OF a, where wn = "''ghost''" and wd = "''/no/such/dir''"
         and d = "[]" and now = 1704114000000 and h = initial_claude_code and st = "initial_state 0"]
  show ?thesis
    by (simp add: number_string_1704114000000 newTask_id)
       (simp add: initial_state_def initial_tasks_def)
qed

text \<open>
  The claim as it was stated fails there: no worktree has the path \<open>/no/such/dir\<close>, the
  description is empty, and the request is accepted and creates a task.
\<close>

theorem startTask_without_worktree_or_description:
  "''/no/such/dir'' \<notin> wt_path ` set (mockWorktrees (initial_state 0))
   \<and> fst (startTask (web_mode 0) ''ghost'' ''/no/such/dir'' [] 1704114000000
            (initial_claude_code, initial_state 0)) = Inr (JStr ''task-1704114000000'')
   \<and> length (mockTasks (snd (snd (startTask (web_mode 0) ''ghost'' ''/no/such/dir'' [] 1704114000000
                                (initial_claude_code, initial_state 0))))) =
       Suc (length (mockTasks (initial_state 0)))"
proof -
  have a: "tauriInvoke (web_mode 0) = None" by (simp add: web_mode_def)
  have "''/no/such/dir'' \<notin> wt_path ` set (mockWorktrees (initial_state 0))"
    by (simp add: initial_state_def initial_worktrees_def)
  then show ?thesis
    by (simp add: startTask_web [OF a] start_result number_string_1704114000000)
qed




text \<open>
  Claim C10. A successful \<open>start_claude_task\<close> leaves one more pending timer, of 5000 ms,
  on the task it created, and a status query then sees the task running. When that timer
  fires, with no operation of any caller, the task object becomes completed, its
  \<open>completedAt\<close> is the firing time and the line \<open>Task completed successfully!\<close> is
  appended; nothing else of the store changes, and from then on the status query sees the
  task completed. (The identity is assumed new to the store, as for C7.)
\<close>

theorem scheduled_completion_after_start:
  assumes start: "start_claude_task wn wd d now st = (taskId, st')"
      and fresh: "find_task taskId (mockTasks st) = None"
  shows "timeouts st' = timeouts st @ [(5000, new_ref st)]
       \<and> map_option status (get_claude_task_status taskId st') = Some Running
       \<and> run_timeout (new_ref st) later st' =
           st\<lparr> mockTasks := mockTasks st @
                  [(new_ref st,
                    (newTask d wd now)
                      \<lparr> status := Completed, completedAt := Some later,
                        task_output := [''Task started...'', ''Analyzing codebase...'',
                                        ''Task completed successfully!''] \<rparr>)] \<rparr>
       \<and> get_claude_task_status taskId (run_timeout (new_ref st) later st') =
           Some ((newTask d wd now)
                   \<lparr> status := Completed, completedAt := Some later,
                     task_output := [''Task started...'', ''Analyzing codebase...'',
                                     ''Task completed successfully!''] \<rparr>)"
proof -
  let ?done = "(newTask d wd now)
                 \<lparr> status := Completed, completedAt := Some later,
                   task_output := [''Task started...'', ''Analyzing codebase...'',
                                   ''Task completed successfully!''] \<rparr>"
  from start have i: "taskId = ''task-'' @ number_string now"
    and s: "st' = snd (start_claude_task wn wd d now st)"
    by (auto simp: start_result)
  have c: "complete_task later (newTask d wd now) = ?done"
    by (simp add: complete_task_def newTask_def)
  have t: "timeouts st' = timeouts st @ [(5000, new_ref st)]"
    by (simp add: s start_result)
  have f0: "find_task taskId (mockTasks st') = Some (new_ref st, newTask d wd now)"
    using find_task_append_new [OF fresh, of "newTask d wd now" "new_ref st"] i
    by (simp add: s start_result newTask_id)
  have b: "map_option status (get_claude_task_status taskId st') = Some Running"
    by (simp add: get_claude_task_status_def f0) (simp add: newTask_def)
  have r: "run_timeout (new_ref st) later st' =
             st\<lparr> mockTasks := mockTasks st @ [(new_ref st, ?done)] \<rparr>"
    by (simp add: s run_timeout_after_start c)
  have "task_id ?done = taskId" by (simp add: newTask_def i)
  with fresh have "find_task taskId (mockTasks st @ [(new_ref st, ?done)]) = Some (new_ref st, ?done)"
    by (rule find_task_append_new)
  then have g: "get_claude_task_status taskId (run_timeout (new_ref st) later st') = Some ?done"
    by (simp add: r get_claude_task_status_def)
  from t b r g show ?thesis by simp
qed

theorem scheduled_completion_after_start_witness:
  "timeouts (snd (start_claude_task ''frontend-feature'' ''/tmp/frontend-feature'' ''Add tests''
                    1704114000000 (initial_state 0))) = [(5000, 2)]
   \<and> map_option status
        (get_claude_task_status ''task-1704114000000''
          (run_timeout 2 1704114005000
            (snd (start_claude_task ''frontend-feature'' ''/tmp/frontend-feature'' ''Add tests''
                    1704114000000 (initial_state 0))))) = Some Completed"
proof -
  let ?r = "start_claude_task ''frontend-feature'' ''/tmp/frontend-feature'' ''Add tests'' 1704114000000 (initial_state 0)"
  have n: "number_string 1704114000000 = ''1704114000000''"
    by (simp add: number_string_def digits.simps digit_char_def)
  have start: "?r = (''task-1704114000000'', snd ?r)"
    by (simp add: start_result n)
  have fresh: "find_task ''task-1704114000000'' (mockTasks (initial_state 0)) = None"
    by (simp add: find_task_initial_other)
  note main = scheduled_completion_after_start [OF start fresh, of 1704114005000]
  from main have t: "timeouts (snd ?r) = timeouts (initial_state 0) @ [(5000, new_ref (initial_state 0))]"
    by (rule conjunct1)
  note g0 = main [THEN conjunct2, THEN conjunct2, THEN conjunct2]
  have g: "map_option status (get_claude_task_status ''task-1704114000000''
             (run_timeout 2 1704114005000 (snd ?r))) = Some Completed"
    using g0 by (simp add: new_ref_initial)
  from t have "timeouts (snd ?r) = [(5000, 2)]"
    by (simp add: new_ref_initial) (simp add: initial_state_def)
  with g show ?thesis by simp
qed

subsection \<open>The overlap analysis\<close>

text \<open>
  Claim C4, as amended. \<open>analyze_worktree_overlaps\<close> is a pure function, and a constant
  one: for every store and repository path (the store without any worktree included) it
  returns the same fixed analysis, with \<open>totalOverlaps = 2\<close> and three recommendations,
  and the command leaves the store as it was.
\<close>

theorem analysis_is_the_fixed_mock:
  "analyze_worktree_overlaps z repoPath st = analyze_worktree_overlaps z repoPath' st'
   \<and> analyze_worktree_overlaps z repoPath st = mockOverlapAnalysis z
   \<and> totalOverlaps (analyze_worktree_overlaps z repoPath st) = 2
   \<and> length (recommendations (analyze_worktree_overlaps z repoPath st)) = 3
   \<and> snd (mock_invoke z (Analyze_worktree_overlaps repoPath) now st) = st"
  by (simp add: analyze_worktree_overlaps_def mockOverlapAnalysis_def)

theorem analysis_is_the_fixed_mock_witness:
  "totalOverlaps (analyze_worktree_overlaps 0 ''/repo'' (initial_state 0)) = 2
   \<and> analyze_worktree_overlaps 0 ''/repo'' (initial_state 0) =
       analyze_worktree_overlaps 0 ''/other''
         (delete_worktree ''backend-api'' (delete_worktree ''frontend-feature'' (initial_state 0)))"
  using analysis_is_the_fixed_mock
          [where z = 0 and repoPath = "''/repo''" and st = "initial_state 0" and repoPath' = "''/other''"
             and st' = "delete_worktree ''backend-api'' (delete_worktree ''frontend-feature'' (initial_state 0))"]
  by blast

text \<open>
  The claim as it was stated fails once both worktrees of the mock data are deleted: no
  worktree is left, and the analysis still reports two overlaps and three recommendations.
\<close>

theorem analysis_of_zero_worktrees_reports_overlaps:
  "mockWorktrees (delete_worktree ''backend-api'' (delete_worktree ''frontend-feature'' (initial_state 0))) = []
   \<and> totalOverlaps
        (analyze_worktree_overlaps 0 ''/repo''
          (delete_worktree ''backend-api'' (delete_worktree ''frontend-feature'' (initial_state 0)))) = 2
   \<and> length (recommendations
        (analyze_worktree_overlaps 0 ''/repo''
          (delete_worktree ''backend-api'' (delete_worktree ''frontend-feature'' (initial_state 0))))) = 3"
  by (simp add: delete_worktree_def initial_state_def initial_worktrees_def
        analyze_worktree_overlaps_def mockOverlapAnalysis_def)




text \<open>
  In web mode the hook's \<open>analyzeOverlaps\<close> produces no analysis at all: the mock analysis
  has no \<open>file_overlaps\<close>, so the mapping cannot read \<open>map\<close> of \<open>undefined\<close> and the
  hook ends with that error.
\<close>

lemma overlap_hook_in_web_mode:
  "tauriInvoke e = None \<Longrightarrow>
   analyzeOverlaps e repoPath now (h, st) =
     (h\<lparr> oa_error := Some (cannot_read ''undefined'' ''map''), oa_loading := False \<rparr>, st)"
  by (simp add: analyzeOverlaps_def invoke_web map_analysis_def js_of_analysis_def and_then_def
        js_array_map_def)






subsection \<open>Failures of the backend\<close>

lemma mock_invoke_succeeds:
  "(case c of
      Other_command name \<Rightarrow>
        fst (mock_invoke z c now st) = Inl (Error (''Command '' @ name @ '' not implemented in mock mode''))
    | _ \<Rightarrow> \<exists>v. fst (mock_invoke z c now st) = Inr v)"
  by (cases c) (simp_all add: cleanup_result split: prod.splits option.splits)

text \<open>
  Claim C8, as amended. When the backend's call of a command fails, \<open>invoke\<close> catches the
  failure and answers with the mock implementation of the same command instead: a
  successful result for every command the mock implements, and for any other command the
  error \<open>Command ... not implemented in mock mode\<close>. The backend's failure itself never
  reaches the caller.
\<close>

theorem backend_failure_falls_back_to_mock:
  assumes "tauriInvoke e = Some backend" and "backend c = Inl err"
  shows "invoke e c now st = mock_invoke (tz e) c now st
       \<and> (case c of
            Other_command name \<Rightarrow>
              fst (invoke e c now st) =
                Inl (Error (''Command '' @ name @ '' not implemented in mock mode''))
          | _ \<Rightarrow> \<exists>v. fst (invoke e c now st) = Inr v)"
proof -
  have eq: "invoke e c now st = mock_invoke (tz e) c now st"
    using assms by (simp add: invoke_def)
  show ?thesis unfolding eq by (rule conjI [OF refl mock_invoke_succeeds])
qed

theorem backend_failure_falls_back_to_mock_witness:
  "invoke (tauri_mode_unavailable 0) (Get_claude_task_status ''task-404'') 0 (initial_state 0) =
     (Inr JUndefined, initial_state 0)
   \<and> invoke (tauri_mode_unavailable 0) (Other_command ''open_editor'') 0 (initial_state 0) =
     (Inl (Error ''Command open_editor not implemented in mock mode''), initial_state 0)"
proof -
  have a: "tauriInvoke (tauri_mode_unavailable 0) = Some unavailable_backend"
    by (simp add: tauri_mode_unavailable_def)
  have b: "unavailable_backend c = Inl (Thrown (JStr ''backend unavailable''))" for c
    by (simp add: unavailable_backend_def)
  from backend_failure_falls_back_to_mock [OF a b, where now = 0 and st = "initial_state 0"
         and c = "Get_claude_task_status ''task-404''"]
  have one: "invoke (tauri_mode_unavailable 0) (Get_claude_task_status ''task-404'') 0 (initial_state 0) =
     (Inr JUndefined, initial_state 0)"
    by (simp add: get_claude_task_status_def find_task_initial_other tauri_mode_unavailable_def)
  from backend_failure_falls_back_to_mock [OF a b, where now = 0 and st = "initial_state 0"
         and c = "Other_command ''open_editor''"]
  have two: "invoke (tauri_mode_unavailable 0) (Other_command ''open_editor'') 0 (initial_state 0) =
     (Inl (Error ''Command open_editor not implemented in mock mode''), initial_state 0)"
    by (simp add: tauri_mode_unavailable_def)
  from one two show ?thesis by simp
qed

text \<open>
  The claim as it was stated fails when the backend rejects every call: listing the tasks
  succeeds, with the two tasks of the mock data, and \<open>refreshTasks\<close> records no error.
\<close>

theorem failed_backend_call_returns_mock_tasks:
  "fst (invoke (tauri_mode_unavailable 0) List_claude_tasks 0 (initial_state 0)) =
     Inr (JArr (map (js_of_task \<circ> snd) (mockTasks (initial_state 0))))
   \<and> error (fst (refreshTasks (tauri_mode_unavailable 0) 0 (initial_claude_code, initial_state 0))) = None
   \<and> length (tasks (fst (refreshTasks (tauri_mode_unavailable 0) 0
                            (initial_claude_code, initial_state 0)))) = 2"
  by (simp add: invoke_def tauri_mode_unavailable_def unavailable_backend_def refreshTasks_def
        refresh_settle_def refresh_begin_def initial_claude_code_def js_array_map_def and_then_def
        map_task_def js_of_task_def optional_prop_def initial_state_def initial_tasks_def)

subsection \<open>The refresh driver\<close>

lemma driver_run_Cons: "driver_run (ev # evs) d = driver_run evs (driver_step ev d)"
  by (simp add: driver_run_def)

lemma begun_while_set:
  "interval d = Some p \<Longrightarrow> Mount \<notin> set evs \<Longrightarrow> Unmount \<notin> set evs \<Longrightarrow>
   begun (driver_run evs d) = begun d + count_list evs Tick"
proof (induction evs arbitrary: d)
  case Nil
  then show ?case by (simp add: driver_run_def)
next
  case (Cons ev evs)
  show ?case
  proof (cases ev)
    case Tick
    have "interval (driver_step Tick d) = Some p"
      using Cons.prems(1) by (simp add: call_refresh_def)
    from Cons.IH [OF this] Cons.prems Tick show ?thesis
      by (simp add: driver_run_Cons call_refresh_def)
  next
    case Settled
    have "interval (driver_step Settled d) = Some p"
      using Cons.prems(1) by simp
    from Cons.IH [OF this] Cons.prems Settled show ?thesis
      by (simp add: driver_run_Cons)
  next
    case Mount
    with Cons.prems show ?thesis by simp
  next
    case Unmount
    with Cons.prems show ?thesis by simp
  qed
qed

lemma begun_while_cleared:
  "interval d = None \<Longrightarrow> Mount \<notin> set evs \<Longrightarrow> begun (driver_run evs d) = begun d"
proof (induction evs arbitrary: d)
  case Nil
  then show ?case by (simp add: driver_run_def)
next
  case (Cons ev evs)
  have step: "interval (driver_step ev d) = None \<and> begun (driver_step ev d) = begun d"
    using Cons.prems by (cases ev) simp_all
  from Cons.IH [of "driver_step ev d"] step Cons.prems(2) show ?case
    by (simp add: driver_run_Cons)
qed

text \<open>
  Claim C9, as amended. Mounting calls \<open>refreshTasks\<close> once at once and sets an interval of
  5000 ms; from then until the unmount, whatever settles in between, the number of refreshes
  begun is one plus the number of ticks, since every tick of a set interval begins a refresh
  and adds one to those in flight, whether or not an earlier one is still in flight (none is
  skipped or queued); after the unmount no tick begins a refresh.
\<close>

theorem driver_refreshes_on_every_tick:
  "driver_step Mount idle_driver = \<lparr> interval = Some 5000, in_flight = 1, begun = 1 \<rparr>
   \<and> (Mount \<notin> set evs \<and> Unmount \<notin> set evs \<longrightarrow>
        begun (driver_run evs (driver_step Mount idle_driver)) = 1 + count_list evs Tick)
   \<and> (interval d \<noteq> None \<longrightarrow>
        in_flight (driver_step Tick d) = Suc (in_flight d) \<and> begun (driver_step Tick d) = Suc (begun d))
   \<and> (Mount \<notin> set evs \<longrightarrow> begun (driver_run evs (driver_step Unmount d)) = begun d)"
proof -
  have m: "driver_step Mount idle_driver = \<lparr> interval = Some 5000, in_flight = 1, begun = 1 \<rparr>"
    by (simp add: idle_driver_def call_refresh_def)
  have a: "Mount \<notin> set evs \<and> Unmount \<notin> set evs \<longrightarrow>
        begun (driver_run evs (driver_step Mount idle_driver)) = 1 + count_list evs Tick"
  proof (intro impI, elim conjE)
    assume no_mount: "Mount \<notin> set evs" and no_unmount: "Unmount \<notin> set evs"
    have i: "interval (driver_step Mount idle_driver) = Some 5000"
      by (simp add: idle_driver_def call_refresh_def)
    have b: "begun (driver_step Mount idle_driver) = 1"
      by (simp add: idle_driver_def call_refresh_def)
    from begun_while_set [OF i no_mount no_unmount] b
    show "begun (driver_run evs (driver_step Mount idle_driver)) = 1 + count_list evs Tick"
      by simp
  qed
  have t: "interval d \<noteq> None \<longrightarrow>
        in_flight (driver_step Tick d) = Suc (in_flight d) \<and> begun (driver_step Tick d) = Suc (begun d)"
    by (auto simp: call_refresh_def)
  have u: "Mount \<notin> set evs \<longrightarrow> begun (driver_run evs (driver_step Unmount d)) = begun d"
    using begun_while_cleared [of "driver_step Unmount d" evs] by simp
  from m a t u show ?thesis by blast
qed

theorem driver_refreshes_on_every_tick_witness:
  "begun (driver_run [Tick, Settled, Tick] (driver_step Mount idle_driver)) = 3
   \<and> in_flight (driver_step Tick (driver_step Mount idle_driver)) = 2
   \<and> begun (driver_run [Tick, Settled, Tick] (driver_step Unmount (driver_step Mount idle_driver))) = 1"
proof -
  note main = driver_refreshes_on_every_tick
                [where evs = "[Tick, Settled, Tick]" and d = "driver_step Mount idle_driver"]
  have i: "interval (driver_step Mount idle_driver) \<noteq> None" and b: "begun (driver_step Mount idle_driver) = 1"
    and f: "in_flight (driver_step Mount idle_driver) = 1"
    by (simp_all add: idle_driver_def call_refresh_def)
  have e: "Mount \<notin> set [Tick, Settled, Tick] \<and> Unmount \<notin> set [Tick, Settled, Tick]" by simp
  from main e have "begun (driver_run [Tick, Settled, Tick] (driver_step Mount idle_driver)) =
      1 + count_list [Tick, Settled, Tick] Tick" by blast
  then have one: "begun (driver_run [Tick, Settled, Tick] (driver_step Mount idle_driver)) = 3" by simp
  from main i have "in_flight (driver_step Tick (driver_step Mount idle_driver)) =
      Suc (in_flight (driver_step Mount idle_driver))" by blast
  then have two: "in_flight (driver_step Tick (driver_step Mount idle_driver)) = 2" using f by simp
  from main e have "begun (driver_run [Tick, Settled, Tick] (driver_step Unmount (driver_step Mount idle_driver))) =
      begun (driver_step Mount idle_driver)" by blast
  then have three: "begun (driver_run [Tick, Settled, Tick] (driver_step Unmount (driver_step Mount idle_driver))) = 1"
    using b by simp
  from one two three show ?thesis by simp
qed

text \<open>
  The claim as it was stated fails when the first tick comes before the first refresh has
  settled: two refreshes are then in flight.
\<close>

theorem tick_during_refresh_starts_another:
  "in_flight (driver_run [Mount] idle_driver) = 1
   \<and> in_flight (driver_run [Mount, Tick] idle_driver) = 2
   \<and> begun (driver_run [Mount, Tick] idle_driver) = 2"
  by (simp add: driver_run_def idle_driver_def call_refresh_def)

end
